theory Spec2Isabelle
  imports Complex_Main "HOL-Library.Multiset"
begin

section \<open>Poisson INAR(1) likelihood model (RIMA\_POISSON.py)\<close>

text \<open>
  A shallow embedding of \<^verbatim>\<open>src/RIMA_POISSON.py\<close>. A Python float or NumPy float64
  is a value of the type \<open>fl\<close>: a finite number, an infinity or NaN. The floating-point
  operations and the library functions the source calls are not code of this file; they
  are the fields of a record \<open>numerics\<close>, and every definition of the likelihood takes
  such a record, so that what is proved holds for binary64 arithmetic as for any other.
  What Python itself adds to them is written out: \<open>math.exp\<close> raises OverflowError when
  the result overflows, \<open>math.log\<close> raises ValueError at an argument that is not
  positive, a float division raises ZeroDivisionError at a zero divisor. NumPy integer
  observations are \<^typ>\<open>int\<close>, the finite entries of the parameter vector and of the
  regressor array are \<^typ>\<open>real\<close>, a one-dimensional array is a list and the
  two-dimensional regressor array the list of its rows (all of one length in NumPy).
  Every exception is a value \<open>Inl e\<close> of the result type.
  The expression broken across lines 50--51 is read as one product, and \<open>fit\<close> (line 57)
  as a method of \<open>PoissonINAR\<close>, whose \<open>self\<close> and \<open>super(PoissonINAR, self)\<close> it uses.
\<close>

subsection \<open>Exceptions\<close>

text \<open>
  \<open>TypeError\<close>, \<open>ValueError\<close>, \<open>IndexError\<close>, \<open>OverflowError\<close> and \<open>ZeroDivisionError\<close>
  are the Python exceptions the source can raise. \<open>InvalidDomain\<close> and \<open>ShapeMismatch\<close>
  are the error names of the specification's taxonomy; no statement of the source raises
  them.
\<close>

datatype error =
  TypeError | ValueError | IndexError | OverflowError | ZeroDivisionError
  | InvalidDomain | ShapeMismatch

subsection \<open>The class hierarchy and \<open>super\<close> (lines 13--21)\<close>

text \<open>
  \<open>INAR\<close> and \<open>PoissonINAR\<close> both derive directly from the library class
  \<open>GenericLikelihoodModel\<close>, whose own ancestors are collapsed into \<open>Object\<close> here.
\<close>

datatype cls = Object | GenericLikelihoodModel | INAR | PoissonINAR

fun mro :: "cls \<Rightarrow> cls list" where
  "mro Object = [Object]"
| "mro GenericLikelihoodModel = [GenericLikelihoodModel, Object]"
| "mro INAR = [INAR, GenericLikelihoodModel, Object]"
| "mro PoissonINAR = [PoissonINAR, GenericLikelihoodModel, Object]"

text \<open>
  \<open>super(c, self)\<close> for an instance whose class is \<open>obj\<close>: Python raises TypeError unless
  the instance is an instance of \<open>c\<close>; otherwise attribute lookup continues in the
  method resolution order of \<open>obj\<close> behind \<open>c\<close>.
\<close>

definition py_super :: "cls \<Rightarrow> cls \<Rightarrow> error + cls list" where
  "py_super c obj =
     (if c \<in> set (mro obj) then Inr (tl (dropWhile (\<lambda>d. d \<noteq> c) (mro obj)))
      else Inl TypeError)"

record model =
  endog :: "int list"
  exog :: "real list list"
  exog_names :: "string list"

text \<open>
  \<open>super(c, self).__init__(endog, exog)\<close>. The constructor of \<open>GenericLikelihoodModel\<close>
  is library code and is the parameter \<open>base_init\<close>; the constructors of this file hand
  their data on without looking at it, so they are defined for data of any type (an
  observed series of integers or of any other values). No class of this file is a parent of
  another one, so the lookup behind \<open>c\<close> can only start at \<open>GenericLikelihoodModel\<close> or at
  \<open>Object\<close>, whose \<open>__init__\<close> takes no data arguments.
\<close>

definition super_init ::
  "('y \<Rightarrow> 'x \<Rightarrow> error + 'm) \<Rightarrow> cls \<Rightarrow> cls \<Rightarrow> 'y \<Rightarrow> 'x \<Rightarrow> error + 'm" where
  "super_init base_init c obj y X =
     (case py_super c obj of
        Inl e \<Rightarrow> Inl e
      | Inr rest \<Rightarrow>
          (case rest of
             GenericLikelihoodModel # _ \<Rightarrow> base_init y X
           | _ \<Rightarrow> Inl TypeError))"


text \<open>Line 21: \<open>PoissonINAR.__init__\<close> calls \<open>super(INAR, self)\<close> on a \<open>PoissonINAR\<close> instance.\<close>

definition PoissonINAR_init :: "('y \<Rightarrow> 'x \<Rightarrow> error + 'm) \<Rightarrow> 'y \<Rightarrow> 'x \<Rightarrow> error + 'm" where
  "PoissonINAR_init base_init y X = super_init base_init INAR PoissonINAR y X"


subsection \<open>Floating-point values and the library's arithmetic\<close>

text \<open>A float: finite, plus or minus infinity, or NaN (the sign of zero is not kept).\<close>

datatype fl = Fin real | PInf | NInf | NaN

text \<open>Negation is exact.\<close>

fun fneg :: "fl \<Rightarrow> fl" where
  "fneg (Fin x) = Fin (- x)"
| "fneg PInf = NInf"
| "fneg NInf = PInf"
| "fneg NaN = NaN"

text \<open>
  The arithmetic the source calls and does not define: the C library's \<open>exp\<close> and \<open>log\<close>
  behind \<open>math.exp\<close> and \<open>math.log\<close> (at a finite, respectively a positive finite
  argument), NumPy's \<open>exp\<close> and \<open>dot\<close>, the float sum, product and quotient, and
  \<open>scipy.stats.poisson.pmf(k, mu)\<close> and \<open>scipy.stats.binom.pmf(k, n, p)\<close>.
\<close>

record numerics =
  libm_exp :: "real \<Rightarrow> fl"
  libm_log :: "real \<Rightarrow> fl"
  np_exp :: "fl \<Rightarrow> fl"
  np_dot :: "real list \<Rightarrow> real list \<Rightarrow> fl"
  f_add :: "fl \<Rightarrow> fl \<Rightarrow> fl"
  f_mul :: "fl \<Rightarrow> fl \<Rightarrow> fl"
  f_div :: "fl \<Rightarrow> fl \<Rightarrow> fl"
  poisson_pmf :: "int \<Rightarrow> fl \<Rightarrow> fl"
  binom_pmf :: "int \<Rightarrow> int \<Rightarrow> fl \<Rightarrow> fl"

text \<open>\<open>math.exp(x)\<close>: OverflowError (math range error) when the result overflows.\<close>

definition math_exp :: "numerics \<Rightarrow> real \<Rightarrow> error + fl" where
  "math_exp env x = (case libm_exp env x of PInf \<Rightarrow> Inl OverflowError | v \<Rightarrow> Inr v)"

text \<open>
  \<open>math.log(v)\<close>: ValueError (math domain error) at zero, at a negative number and at
  minus infinity; infinity and NaN are passed through.
\<close>

definition log_raises :: "fl \<Rightarrow> bool" where
  "log_raises v = (case v of Fin x \<Rightarrow> x \<le> 0 | NInf \<Rightarrow> True | PInf \<Rightarrow> False | NaN \<Rightarrow> False)"

definition log_value :: "numerics \<Rightarrow> fl \<Rightarrow> fl" where
  "log_value env v = (case v of Fin x \<Rightarrow> libm_log env x | PInf \<Rightarrow> PInf | NInf \<Rightarrow> NaN | NaN \<Rightarrow> NaN)"

definition math_log :: "numerics \<Rightarrow> fl \<Rightarrow> error + fl" where
  "math_log env v = (if log_raises v then Inl ValueError else Inr (log_value env v))"

text \<open>\<open>a / b\<close> on Python floats: ZeroDivisionError at a zero divisor.\<close>

definition py_div :: "numerics \<Rightarrow> fl \<Rightarrow> fl \<Rightarrow> error + fl" where
  "py_div env a b = (if b = Fin 0 then Inl ZeroDivisionError else Inr (f_div env a b))"

text \<open>\<open>params[-1]\<close> raises IndexError on an empty vector.\<close>

definition last_item :: "real list \<Rightarrow> error + real" where
  "last_item params = (if params = [] then Inl IndexError else Inr (last params))"

text \<open>\<open>xs[t]\<close> for an index \<open>t \<ge> 0\<close> raises IndexError past the end.\<close>

definition item :: "'a list \<Rightarrow> nat \<Rightarrow> error + 'a" where
  "item xs t = (if t < length xs then Inr (xs ! t) else Inl IndexError)"

text \<open>
  \<open>X.dot(beta)\<close> for a matrix with rows \<open>X\<close>: ValueError unless the column count equals
  the length of \<open>beta\<close>.
\<close>

definition X_dot :: "numerics \<Rightarrow> real list list \<Rightarrow> real list \<Rightarrow> error + fl list" where
  "X_dot env X beta =
     (if list_all (\<lambda>row. length row = length beta) X then Inr (map (\<lambda>row. np_dot env row beta) X)
      else Inl ValueError)"

text \<open>\<open>X.shape[1]\<close>, the number of columns.\<close>

definition shape1 :: "real list list \<Rightarrow> nat" where
  "shape1 X = (case X of [] \<Rightarrow> 0 | row # _ \<Rightarrow> length row)"

subsection \<open>\<open>PoissonINAR.nloglikeobs\<close> (lines 23--55)\<close>

text \<open>
  Line 35, \<open>rho = 1.0/(1.0+math.exp(-gamma))\<close>: the exponential may raise, the sum and the
  quotient are float operations.
\<close>

definition rho_of :: "numerics \<Rightarrow> real \<Rightarrow> error + fl" where
  "rho_of env gamma =
     (case math_exp env (- gamma) of
        Inl e \<Rightarrow> Inl e
      | Inr x \<Rightarrow> py_div env (Fin 1) (f_add env (Fin 1) x))"

text \<open>
  Lines 49--51, the inner loop over \<open>j\<close> with the accumulator \<open>prob_y_t\<close>; \<open>mu[t]\<close> is read
  in every iteration (and never when the range is empty).
\<close>

fun inner_loop ::
  "numerics \<Rightarrow> int list \<Rightarrow> fl list \<Rightarrow> fl \<Rightarrow> nat \<Rightarrow> int list \<Rightarrow> fl \<Rightarrow> error + fl" where
  "inner_loop env y mu rho t [] prob = Inr prob"
| "inner_loop env y mu rho t (j # js) prob =
     (case item mu t of
        Inl e \<Rightarrow> Inl e
      | Inr mu_t \<Rightarrow>
          inner_loop env y mu rho t js
            (f_add env prob
               (f_mul env (poisson_pmf env (y ! t - j) mu_t) (binom_pmf env j (y ! (t - 1)) rho))))"

text \<open>
  Lines 48--51: the accumulator starts at \<open>0\<close>, and \<open>range(int(min(y[t], y[t-1]) + 1))\<close> is
  \<open>0, \<dots>, min(y[t], y[t-1])\<close>, empty when the minimum is negative. The outer loop only
  passes \<open>1 \<le> t < len(y)\<close>, so \<open>y[t]\<close> and \<open>y[t-1]\<close> are in range.
\<close>

definition prob_y_t :: "numerics \<Rightarrow> int list \<Rightarrow> fl list \<Rightarrow> fl \<Rightarrow> nat \<Rightarrow> error + fl" where
  "prob_y_t env y mu rho t =
     inner_loop env y mu rho t [0 .. min (y ! t) (y ! (t - 1))] (Fin 0)"

text \<open>Lines 47--52, the outer loop over \<open>t\<close>, appending to \<open>ll\<close>.\<close>

fun outer_loop ::
  "numerics \<Rightarrow> int list \<Rightarrow> fl list \<Rightarrow> fl \<Rightarrow> nat list \<Rightarrow> fl list \<Rightarrow> error + fl list" where
  "outer_loop env y mu rho [] ll = Inr ll"
| "outer_loop env y mu rho (t # ts) ll =
     (case prob_y_t env y mu rho t of
        Inl e \<Rightarrow> Inl e
      | Inr p \<Rightarrow>
          (case math_log env p of
             Inl e \<Rightarrow> Inl e
           | Inr l \<Rightarrow> outer_loop env y mu rho ts (ll @ [l])))"

text \<open>
  The body in the order of the source: \<open>gamma\<close> and \<open>beta\<close> (lines 26--27), \<open>rho\<close>
  (line 35), \<open>mu\<close> (line 39), the loops over \<open>range(len(y)-1, 0, -1)\<close>, that is
  \<open>len(y)-1, \<dots>, 1\<close>, and the negated array (line 55).
\<close>

definition nloglikeobs :: "numerics \<Rightarrow> model \<Rightarrow> real list \<Rightarrow> error + fl list" where
  "nloglikeobs env self params =
     (case last_item params of
        Inl e \<Rightarrow> Inl e
      | Inr gamma \<Rightarrow>
          (let beta = butlast params;
               y = endog self;
               X = exog self
           in case rho_of env gamma of
                Inl e \<Rightarrow> Inl e
              | Inr rho \<Rightarrow>
                  (case X_dot env X beta of
                     Inl e \<Rightarrow> Inl e
                   | Inr d \<Rightarrow>
                       (let mu = map (np_exp env) d
                        in case outer_loop env y mu rho (rev [1 ..< length y]) [] of
                             Inl e \<Rightarrow> Inl e
                           | Inr ll \<Rightarrow> Inr (map fneg ll)))))"

subsection \<open>The specification's per-observation probability\<close>

text \<open>
  Following the words of the specification, read in the arithmetic of the code:
  \<open>mu_t = exp(dot(regressorRow_t, beta))\<close> and
  \<open>P(y_t | y_{t-1}) = \<Sum>_{j=0}^{min(y_t, y_{t-1})} Poisson_pmf(y_t - j; mu_t) * Binomial_pmf(j; y_{t-1}, rho)\<close>,
  where \<open>beta\<close> is the parameter vector without its last entry and \<open>rho\<close> the thinning
  probability. A float sum depends on the order of its terms: they are added from
  \<open>j = 0\<close> upwards, starting at \<open>0\<close>. The term returned for \<open>t\<close> is the negated logarithm.
\<close>

definition fsum :: "numerics \<Rightarrow> fl list \<Rightarrow> fl" where
  "fsum env xs = foldl (f_add env) (Fin 0) xs"

definition spec_mu :: "numerics \<Rightarrow> model \<Rightarrow> real list \<Rightarrow> nat \<Rightarrow> fl" where
  "spec_mu env self params t = np_exp env (np_dot env (exog self ! t) (butlast params))"

definition spec_prob :: "numerics \<Rightarrow> model \<Rightarrow> real list \<Rightarrow> fl \<Rightarrow> nat \<Rightarrow> fl" where
  "spec_prob env self params rho t =
     fsum env
       (map (\<lambda>j. f_mul env (poisson_pmf env (endog self ! t - j) (spec_mu env self params t))
                   (binom_pmf env j (endog self ! (t - 1)) rho))
          [0 .. min (endog self ! t) (endog self ! (t - 1))])"

definition spec_nll :: "numerics \<Rightarrow> model \<Rightarrow> real list \<Rightarrow> fl \<Rightarrow> nat \<Rightarrow> fl" where
  "spec_nll env self params rho t = fneg (log_value env (spec_prob env self params rho t))"


text \<open>
  The shapes NumPy needs for the body to run without a shape or index error: one
  regressor row per observation, a non-empty parameter vector, and as many columns as
  there are entries before the last one.
\<close>

definition shapes_ok :: "model \<Rightarrow> real list \<Rightarrow> bool" where
  "shapes_ok self params \<longleftrightarrow>
     length (exog self) = length (endog self) \<and>
     params \<noteq> [] \<and>
     list_all (\<lambda>row. length row = length (butlast params)) (exog self)"

text \<open>
  The data model of the specification for a bound instance and a parameter vector:
  non-negative observations, one regressor row per observation, \<open>K\<close> columns and
  \<open>K + 1\<close> parameters.
\<close>

definition bound :: "model \<Rightarrow> real list \<Rightarrow> bool" where
  "bound self params \<longleftrightarrow> list_all (\<lambda>v. 0 \<le> v) (endog self) \<and> shapes_ok self params"

text \<open>The term the inner loop adds for \<open>j\<close> (lines 50--51), with \<open>mu[t]\<close> in range.\<close>

definition summand :: "numerics \<Rightarrow> int list \<Rightarrow> fl list \<Rightarrow> fl \<Rightarrow> nat \<Rightarrow> int \<Rightarrow> fl" where
  "summand env y mu rho t j =
     f_mul env (poisson_pmf env (y ! t - j) (mu ! t)) (binom_pmf env j (y ! (t - 1)) rho)"

subsection \<open>\<open>PoissonINAR.fit\<close> (lines 57--66)\<close>

text \<open>
  The \<open>start_params\<close> argument: \<open>None\<close>, a Python list or a NumPy array.
\<close>

datatype start = PyNone | PyList "real list" | NdArray "real list"

text \<open>
  The value of \<open>start_params == None\<close>: a Python bool for \<open>None\<close> and for a list, the
  elementwise comparison (all False) for an array.
\<close>

datatype pyval = PyBool bool | BoolArray "bool list"

definition eq_None :: "start \<Rightarrow> pyval" where
  "eq_None sp =
     (case sp of
        PyNone \<Rightarrow> PyBool True
      | PyList _ \<Rightarrow> PyBool False
      | NdArray v \<Rightarrow> BoolArray (map (\<lambda>_. False) v))"

text \<open>
  The truth value taken by \<open>if\<close>: an array of two or more elements raises ValueError
  (ambiguous truth value), a one-element array has the truth value of its element, an
  empty one is false.
\<close>

definition truth :: "pyval \<Rightarrow> error + bool" where
  "truth v =
     (case v of
        PyBool b \<Rightarrow> Inr b
      | BoolArray bs \<Rightarrow>
          (case bs of [] \<Rightarrow> Inr False | [b] \<Rightarrow> Inr b | _ # _ # _ \<Rightarrow> Inl ValueError))"

definition values_of :: "start \<Rightarrow> real list" where
  "values_of sp = (case sp of PyNone \<Rightarrow> [] | PyList v \<Rightarrow> v | NdArray v \<Rightarrow> v)"

text \<open>
  \<open>fit\<close> returns the instance as it leaves it and the outcome. \<open>super_fit\<close> is the library
  optimiser \<open>GenericLikelihoodModel.fit\<close>, called with the instance, the start vector and
  the two caps. Line 60 appends to \<open>exog_names\<close> before anything else.
\<close>

definition fit ::
  "(model \<Rightarrow> real list \<Rightarrow> nat \<Rightarrow> nat \<Rightarrow> error + 'r) \<Rightarrow> model \<Rightarrow> start \<Rightarrow> nat \<Rightarrow> nat \<Rightarrow>
     model \<times> (error + 'r)" where
  "fit super_fit self start_params maxiter maxfun =
     (let self1 = self\<lparr>exog_names := exog_names self @ [''gamma'']\<rparr>
      in case truth (eq_None start_params) of
           Inl e \<Rightarrow> (self1, Inl e)
         | Inr is_none \<Rightarrow>
             (let start_params1 =
                    (if is_none then replicate (shape1 (exog self1)) 1 @ [1]
                     else values_of start_params)
              in (self1, super_fit self1 start_params1 maxiter maxfun)))"

text \<open>An optimiser stand-in that reports the start vector it was handed.\<close>

definition echo_start :: "model \<Rightarrow> real list \<Rightarrow> nat \<Rightarrow> nat \<Rightarrow> error + real list" where
  "echo_start self start_params maxiter maxfun = Inr start_params"

subsection \<open>A reference arithmetic\<close>

text \<open>
  One instance of \<open>numerics\<close>, for the worked inputs: the exact result of each operation
  brought into the range of binary64. A result of magnitude at least \<open>2^1024 - 2^970\<close> is
  an infinity, one above the largest double \<open>2^1024 - 2^971\<close> is that double, one of
  magnitude at most \<open>2^-1075\<close> is zero. The significand is not rounded.
\<close>

definition dbl_max :: real where
  "dbl_max = 2 ^ 1024 - 2 ^ 971"

definition dbl_over :: real where
  "dbl_over = 2 ^ 1024 - 2 ^ 970"

definition dbl_tiny :: real where
  "dbl_tiny = 1 / 2 ^ 1075"

definition to_fl :: "real \<Rightarrow> fl" where
  "to_fl x =
     (if dbl_over \<le> x then PInf
      else if x \<le> - dbl_over then NInf
      else if \<bar>x\<bar> \<le> dbl_tiny then Fin 0
      else Fin (max (- dbl_max) (min dbl_max x)))"

text \<open>The probability mass functions as SciPy documents them, zero outside the support.\<close>

definition poisson_formula :: "int \<Rightarrow> real \<Rightarrow> real" where
  "poisson_formula k mu = (if k < 0 then 0 else exp (- mu) * mu ^ nat k / fact (nat k))"

definition binom_formula :: "int \<Rightarrow> int \<Rightarrow> real \<Rightarrow> real" where
  "binom_formula k n p =
     (if k < 0 \<or> n < k then 0
      else real (nat n choose nat k) * p ^ nat k * (1 - p) ^ nat (n - k))"

definition ref_poisson :: "int \<Rightarrow> fl \<Rightarrow> fl" where
  "ref_poisson k mu =
     (case mu of
        Fin m \<Rightarrow> if m < 0 then NaN else to_fl (poisson_formula k m)
      | PInf \<Rightarrow> NaN | NInf \<Rightarrow> NaN | NaN \<Rightarrow> NaN)"

definition ref_binom :: "int \<Rightarrow> int \<Rightarrow> fl \<Rightarrow> fl" where
  "ref_binom k n p =
     (case p of
        Fin q \<Rightarrow> if n < 0 \<or> q < 0 \<or> 1 < q then NaN else to_fl (binom_formula k n q)
      | PInf \<Rightarrow> NaN | NInf \<Rightarrow> NaN | NaN \<Rightarrow> NaN)"

fun ref_np_exp :: "fl \<Rightarrow> fl" where
  "ref_np_exp (Fin x) = to_fl (exp x)"
| "ref_np_exp PInf = PInf"
| "ref_np_exp NInf = Fin 0"
| "ref_np_exp NaN = NaN"

definition ref_dot :: "real list \<Rightarrow> real list \<Rightarrow> fl" where
  "ref_dot row beta = to_fl (\<Sum>(x, b) \<leftarrow> zip row beta. x * b)"

text \<open>The sign of a float, and the infinity of a sign (NaN for no sign).\<close>

fun fl_sign :: "fl \<Rightarrow> real" where
  "fl_sign (Fin a) = sgn a"
| "fl_sign PInf = 1"
| "fl_sign NInf = - 1"
| "fl_sign NaN = 0"

definition inf_of :: "real \<Rightarrow> fl" where
  "inf_of s = (if s = 0 then NaN else if 0 < s then PInf else NInf)"

fun ref_add :: "fl \<Rightarrow> fl \<Rightarrow> fl" where
  "ref_add (Fin a) (Fin b) = to_fl (a + b)"
| "ref_add NaN _ = NaN"
| "ref_add _ NaN = NaN"
| "ref_add PInf NInf = NaN"
| "ref_add NInf PInf = NaN"
| "ref_add PInf _ = PInf"
| "ref_add _ PInf = PInf"
| "ref_add NInf _ = NInf"
| "ref_add _ NInf = NInf"

fun ref_mul :: "fl \<Rightarrow> fl \<Rightarrow> fl" where
  "ref_mul (Fin a) (Fin b) = to_fl (a * b)"
| "ref_mul NaN _ = NaN"
| "ref_mul _ NaN = NaN"
| "ref_mul x y = inf_of (fl_sign x * fl_sign y)"

fun ref_div :: "fl \<Rightarrow> fl \<Rightarrow> fl" where
  "ref_div (Fin a) (Fin b) = (if b = 0 then inf_of (sgn a) else to_fl (a / b))"
| "ref_div NaN _ = NaN"
| "ref_div _ NaN = NaN"
| "ref_div (Fin a) _ = Fin 0"
| "ref_div x (Fin b) = inf_of (fl_sign x * (if b < 0 then - 1 else 1))"
| "ref_div _ _ = NaN"

definition ref_env :: numerics where
  "ref_env =
     \<lparr>libm_exp = (\<lambda>x. to_fl (exp x)),
      libm_log = (\<lambda>x. to_fl (ln x)),
      np_exp = ref_np_exp,
      np_dot = ref_dot,
      f_add = ref_add,
      f_mul = ref_mul,
      f_div = ref_div,
      poisson_pmf = ref_poisson,
      binom_pmf = ref_binom\<rparr>"


section \<open>Properties\<close>

subsection \<open>Construction\<close>

lemma py_super_INAR_PoissonINAR: "py_super INAR PoissonINAR = Inl TypeError"
  by (simp add: py_super_def)

text \<open>
  C4. For every observed series and regressor matrix, and whatever the library
  constructor would do, constructing a \<open>PoissonINAR\<close> raises TypeError: \<open>__init__\<close> asks
  for \<open>super(INAR, self)\<close> while \<open>self\<close> is a \<open>PoissonINAR\<close>, which is not a subclass of
  \<open>INAR\<close>. No model is ever produced by the constructor.
\<close>

theorem PoissonINAR_init_raises_TypeError:
  "PoissonINAR_init base_init y X = Inl TypeError"
  by (simp add: PoissonINAR_init_def super_init_def py_super_INAR_PoissonINAR)



subsection \<open>The loops of \<open>nloglikeobs\<close>\<close>

lemma inner_loop_fold:
  "t < length mu \<Longrightarrow>
   inner_loop env y mu rho t js prob = Inr (foldl (f_add env) prob (map (summand env y mu rho t) js))"
  by (induction js arbitrary: prob) (simp_all add: item_def summand_def)

lemma prob_y_t_fsum:
  "t < length mu \<Longrightarrow>
   prob_y_t env y mu rho t =
     Inr (fsum env (map (summand env y mu rho t) [0 .. min (y ! t) (y ! (t - 1))]))"
  by (simp add: prob_y_t_def inner_loop_fold fsum_def)

lemma prob_y_t_spec:
  assumes "t < length (exog self)"
  shows "prob_y_t env (endog self)
           (map (np_exp env) (map (\<lambda>row. np_dot env row (butlast params)) (exog self))) rho t =
         Inr (spec_prob env self params rho t)"
proof -
  let ?mu = "map (np_exp env) (map (\<lambda>row. np_dot env row (butlast params)) (exog self))"
  have len: "t < length ?mu" using assms by simp
  have mu: "?mu ! t = spec_mu env self params t"
    using assms by (simp add: spec_mu_def)
  have "summand env (endog self) ?mu rho t =
        (\<lambda>j. f_mul env (poisson_pmf env (endog self ! t - j) (spec_mu env self params t))
               (binom_pmf env j (endog self ! (t - 1)) rho))"
    unfolding summand_def mu ..
  then show ?thesis
    by (simp only: prob_y_t_fsum[OF len] spec_prob_def)
qed

lemma outer_loop_ok:
  assumes "\<And>t. t \<in> set ts \<Longrightarrow> prob_y_t env y mu rho t = Inr (P t) \<and> \<not> log_raises (P t)"
  shows "outer_loop env y mu rho ts ll = Inr (ll @ map (\<lambda>t. log_value env (P t)) ts)"
  using assms
proof (induction ts arbitrary: ll)
  case Nil
  then show ?case by simp
next
  case (Cons t ts)
  have t: "prob_y_t env y mu rho t = Inr (P t)" "\<not> log_raises (P t)"
    using Cons.prems by simp_all
  have "outer_loop env y mu rho ts (ll @ [log_value env (P t)]) =
        Inr ((ll @ [log_value env (P t)]) @ map (\<lambda>t. log_value env (P t)) ts)"
    by (rule Cons.IH) (simp add: Cons.prems)
  then show ?case
    using t by (simp add: math_log_def)
qed

lemma outer_loop_raises:
  assumes "\<And>u. u \<in> set ts \<Longrightarrow> prob_y_t env y mu rho u = Inr (P u)"
      and "t \<in> set ts"
      and "log_raises (P t)"
  shows "outer_loop env y mu rho ts ll = Inl ValueError"
  using assms
proof (induction ts arbitrary: ll)
  case Nil
  then show ?case by simp
next
  case (Cons u us)
  have u: "prob_y_t env y mu rho u = Inr (P u)" using Cons.prems(1) by simp
  show ?case
  proof (cases "log_raises (P u)")
    case True
    then show ?thesis by (simp add: u math_log_def)
  next
    case False
    then have "t \<in> set us" using Cons.prems(2,3) by auto
    then have "outer_loop env y mu rho us (ll @ [log_value env (P u)]) = Inl ValueError"
      using Cons.IH Cons.prems(1,3) by simp
    then show ?thesis using False by (simp add: u math_log_def)
  qed
qed

lemma nloglikeobs_rho_raises:
  assumes "params \<noteq> []" "rho_of env (last params) = Inl e"
  shows "nloglikeobs env self params = Inl e"
  using assms by (simp add: nloglikeobs_def last_item_def Let_def)

lemma nloglikeobs_unfold:
  assumes "shapes_ok self params" "rho_of env (last params) = Inr rho"
  shows "nloglikeobs env self params =
     (case outer_loop env (endog self)
             (map (np_exp env) (map (\<lambda>row. np_dot env row (butlast params)) (exog self)))
             rho (rev [1 ..< length (endog self)]) [] of
        Inl e \<Rightarrow> Inl e
      | Inr ll \<Rightarrow> Inr (map fneg ll))"
  using assms by (simp add: nloglikeobs_def shapes_ok_def last_item_def X_dot_def Let_def)

lemma bound_shapes_ok: "bound self params \<Longrightarrow> shapes_ok self params"
  by (simp add: bound_def)

lemma nloglikeobs_returns:
  assumes "shapes_ok self params" "rho_of env (last params) = Inr rho"
      and "\<And>t. 1 \<le> t \<Longrightarrow> t < length (endog self) \<Longrightarrow> \<not> log_raises (spec_prob env self params rho t)"
  shows "nloglikeobs env self params =
           Inr (map (spec_nll env self params rho) (rev [1 ..< length (endog self)]))"
proof -
  let ?y = "endog self"
  let ?mu = "map (np_exp env) (map (\<lambda>row. np_dot env row (butlast params)) (exog self))"
  let ?ts = "rev [1 ..< length ?y]"
  have len: "length (exog self) = length ?y" using assms(1) by (simp add: shapes_ok_def)
  have "outer_loop env ?y ?mu rho ?ts [] =
          Inr ([] @ map (\<lambda>t. log_value env (spec_prob env self params rho t)) ?ts)"
  proof (rule outer_loop_ok)
    fix t assume "t \<in> set ?ts"
    then have t: "1 \<le> t" "t < length ?y" by simp_all
    then have "t < length (exog self)" using len by simp
    then have "prob_y_t env ?y ?mu rho t = Inr (spec_prob env self params rho t)"
      by (rule prob_y_t_spec)
    then show "prob_y_t env ?y ?mu rho t = Inr (spec_prob env self params rho t) \<and>
               \<not> log_raises (spec_prob env self params rho t)"
      using assms(3)[OF t] by simp
  qed
  then show ?thesis
    by (simp add: nloglikeobs_unfold[OF assms(1,2)] spec_nll_def[abs_def] comp_def)
qed

lemma nloglikeobs_raises:
  assumes "shapes_ok self params" "rho_of env (last params) = Inr rho"
      and "1 \<le> t" "t < length (endog self)" "log_raises (spec_prob env self params rho t)"
  shows "nloglikeobs env self params = Inl ValueError"
proof -
  let ?y = "endog self"
  let ?mu = "map (np_exp env) (map (\<lambda>row. np_dot env row (butlast params)) (exog self))"
  let ?ts = "rev [1 ..< length ?y]"
  have len: "length (exog self) = length ?y" using assms(1) by (simp add: shapes_ok_def)
  have "outer_loop env ?y ?mu rho ?ts [] = Inl ValueError"
  proof (rule outer_loop_raises[where P = "spec_prob env self params rho" and t = t])
    fix u assume "u \<in> set ?ts"
    then have "u < length (exog self)" using len by simp
    then show "prob_y_t env ?y ?mu rho u = Inr (spec_prob env self params rho u)"
      by (rule prob_y_t_spec)
  next
    show "t \<in> set ?ts" using assms(3,4) by simp
    show "log_raises (spec_prob env self params rho t)" by fact
  qed
  then show ?thesis
    by (simp add: nloglikeobs_unfold[OF assms(1,2)])
qed

lemma nloglikeobs_Inr_cases:
  assumes "shapes_ok self params" "nloglikeobs env self params = Inr ll"
  obtains rho where "rho_of env (last params) = Inr rho"
    and "\<And>t. 1 \<le> t \<Longrightarrow> t < length (endog self) \<Longrightarrow> \<not> log_raises (spec_prob env self params rho t)"
    and "ll = map (spec_nll env self params rho) (rev [1 ..< length (endog self)])"
proof (cases "rho_of env (last params)")
  case (Inl e)
  have "params \<noteq> []" using assms(1) by (simp add: shapes_ok_def)
  then have "nloglikeobs env self params = Inl e" using Inl by (rule nloglikeobs_rho_raises)
  then show thesis using assms(2) by simp
next
  case (Inr rho)
  have no: "\<not> log_raises (spec_prob env self params rho t)"
    if "1 \<le> t" "t < length (endog self)" for t
  proof
    assume "log_raises (spec_prob env self params rho t)"
    then have "nloglikeobs env self params = Inl ValueError"
      using assms(1) Inr that by (intro nloglikeobs_raises)
    then show False using assms(2) by simp
  qed
  have "nloglikeobs env self params =
          Inr (map (spec_nll env self params rho) (rev [1 ..< length (endog self)]))"
    using assms(1) Inr no by (rule nloglikeobs_returns)
  then have "ll = map (spec_nll env self params rho) (rev [1 ..< length (endog self)])"
    using assms(2) by simp
  then show thesis using Inr no that by blast
qed

subsection \<open>The reference arithmetic\<close>

lemma dbl_tiny_pos: "0 < dbl_tiny"
  by (simp add: dbl_tiny_def)

lemma dbl_consts:
  "8 \<le> dbl_max" "dbl_max + 1 < dbl_over" "dbl_tiny < 1/8" "dbl_tiny * dbl_max < 1"
  "dbl_over \<le> 2 ^ 1024"
  by (simp_all add: dbl_max_def dbl_over_def dbl_tiny_def)

lemma to_fl_id: "dbl_tiny < \<bar>x\<bar> \<Longrightarrow> \<bar>x\<bar> \<le> dbl_max \<Longrightarrow> to_fl x = Fin x"
  using dbl_consts(1,2) by (auto simp add: to_fl_def)

lemma to_fl_mid: "1/8 \<le> \<bar>x\<bar> \<Longrightarrow> \<bar>x\<bar> \<le> 8 \<Longrightarrow> to_fl x = Fin x"
  using dbl_consts(1,3) by (intro to_fl_id) linarith+

lemma to_fl_small: "\<bar>x\<bar> \<le> dbl_tiny \<Longrightarrow> to_fl x = Fin 0"
  using dbl_consts(1,2,3) by (auto simp add: to_fl_def)

lemma to_fl_0: "to_fl 0 = Fin 0"
  using dbl_tiny_pos by (simp add: to_fl_small)

lemma to_fl_over: "dbl_over \<le> x \<Longrightarrow> to_fl x = PInf"
  by (simp add: to_fl_def)

lemma to_fl_1: "to_fl 1 = Fin 1" and to_fl_2: "to_fl 2 = Fin 2" and to_fl_half: "to_fl (1/2) = Fin (1/2)"
  by (simp_all add: to_fl_mid)

lemma exp_ge_2_pow: "2 ^ n \<le> exp (real n)"
proof -
  have "(2::real) \<le> exp 1" using exp_ge_add_one_self[of "1::real"] by simp
  then have "2 ^ n \<le> exp (1::real) ^ n" by (intro power_mono) simp_all
  then show ?thesis using exp_of_nat_mult[of n "1::real"] by simp
qed

lemma exp_le_4_pow: "exp (real n) \<le> 2 ^ (2 * n)"
proof -
  have "exp (1::real) \<le> 4" using exp_le by simp
  then have "exp (1::real) ^ n \<le> 4 ^ n" by (intro power_mono) simp_all
  moreover have "(4::real) ^ n = 2 ^ (2 * n)" by (simp add: power_mult)
  ultimately show ?thesis using exp_of_nat_mult[of n "1::real"] by simp
qed

lemma exp_1000_over: "dbl_over \<le> exp 1000"
proof -
  have "(3/2::real) \<le> exp (1/2)" using exp_ge_add_one_self[of "1/2::real"] by simp
  then have "(3/2::real) ^ 7 \<le> exp (1/2) ^ 7" by (intro power_mono) simp_all
  moreover have "exp (1/2::real) ^ 7 = exp (7/2)"
    using exp_of_nat_mult[of 7 "1/2::real"] by simp
  moreover have "(16::real) \<le> (3/2) ^ 7" by (simp add: power_divide)
  ultimately have "(16::real) \<le> exp (7/2)" by linarith
  then have "(16::real) ^ 285 \<le> exp (7/2) ^ 285" by (intro power_mono) simp_all
  moreover have "exp (7/2::real) ^ 285 = exp (1995/2)"
    using exp_of_nat_mult[of 285 "7/2::real"] by simp
  moreover have "exp (1995/2::real) \<le> exp 1000" by simp
  moreover have "(16::real) ^ 285 = 2 ^ 1140"
    using power_mult[of "2::real" 4 285] by simp
  moreover have "(2::real) ^ 1024 \<le> 2 ^ 1140" by (intro power_increasing) simp_all
  ultimately show ?thesis using dbl_consts(5) by linarith
qed

lemma exp_neg_small: "1075 \<le> n \<Longrightarrow> exp (- real n) \<le> dbl_tiny"
proof -
  assume n: "1075 \<le> n"
  have "(2::real) ^ 1075 \<le> 2 ^ n" using n by (intro power_increasing) simp_all
  also have "\<dots> \<le> exp (real n)" by (rule exp_ge_2_pow)
  finally have "1 / exp (real n) \<le> 1 / 2 ^ 1075"
    by (intro divide_left_mono) simp_all
  then show ?thesis by (simp add: exp_minus dbl_tiny_def inverse_eq_divide)
qed

lemma exp_neg_300: "dbl_tiny < exp (- 300)" "exp (- 300) \<le> (1::real)"
proof -
  have "exp (real 300) \<le> 2 ^ (2 * 300)" by (rule exp_le_4_pow)
  also have "\<dots> < (2::real) ^ 1075" by (intro power_strict_increasing) simp_all
  finally have "1 / 2 ^ 1075 < 1 / exp (300::real)"
    by (intro divide_strict_left_mono) simp_all
  then show "dbl_tiny < exp (- 300)" by (simp add: exp_minus dbl_tiny_def inverse_eq_divide)
  show "exp (- 300) \<le> (1::real)" by simp
qed

lemma exp_neg_1: "1/3 \<le> exp (- 1 :: real)" "exp (- 1 :: real) \<le> 1"
proof -
  have "1 / 3 \<le> 1 / exp (1::real)"
    using exp_le by (intro divide_left_mono) simp_all
  then show "1/3 \<le> exp (- 1 :: real)" by (simp add: exp_minus inverse_eq_divide)
  show "exp (- 1 :: real) \<le> 1" by simp
qed

lemma ln_2_bounds: "0 \<le> ln (2::real)" "ln (2::real) \<le> 1"
  using ln_le_minus_one[of "2::real"] by simp_all

lemma fact_200: "(2::real) ^ 1075 \<le> fact 200"
  by (simp add: fact_numeral)

subsection \<open>Worked inputs in the reference arithmetic\<close>

lemma ref_rho_0: "rho_of ref_env 0 = Inr (Fin (1/2))"
  by (simp add: rho_of_def math_exp_def py_div_def ref_env_def to_fl_1 to_fl_2 to_fl_half)

lemma ref_rho_overflow: "rho_of ref_env (- 1000) = Inl OverflowError"
  by (simp add: rho_of_def math_exp_def ref_env_def to_fl_over[OF exp_1000_over])


lemma upt_1_3: "[1 ..< 3] = [1, 2::nat]"
  by (simp add: upt_rec)

lemma to_fl_pos_mid: "1/8 \<le> x \<Longrightarrow> x \<le> 8 \<Longrightarrow> to_fl x = Fin x"
  by (rule to_fl_mid) simp_all

lemma to_fl_exp_neg_1: "to_fl (exp (- 1)) = Fin (exp (- 1))"
  by (rule to_fl_pos_mid) (use exp_neg_1 in linarith)+

lemma to_fl_exp_neg_1_half: "to_fl (exp (- 1) / 2) = Fin (exp (- 1) / 2)"
  by (rule to_fl_pos_mid) (use exp_neg_1 in linarith)+

lemma ref_add_Fin: "f_add ref_env (Fin a) (Fin b) = to_fl (a + b)"
  and ref_mul_Fin: "f_mul ref_env (Fin a) (Fin b) = to_fl (a * b)"
  and ref_log: "libm_log ref_env x = to_fl (ln x)"
  by (simp_all add: ref_env_def)

lemma ref_binom_0_0: "binom_pmf ref_env 0 0 (Fin (1/2)) = Fin 1"
  by (simp add: ref_env_def ref_binom_def binom_formula_def to_fl_1)

lemma ref_mu_zero_row: "np_exp ref_env (np_dot ref_env [0] [0]) = Fin 1"
  by (simp add: ref_env_def ref_dot_def to_fl_0 to_fl_1)

lemma ref_poisson_0_1: "poisson_pmf ref_env 0 (Fin 1) = Fin (exp (- 1))"
  by (simp add: ref_env_def ref_poisson_def poisson_formula_def to_fl_exp_neg_1)

lemma ref_poisson_2_1: "poisson_pmf ref_env 2 (Fin 1) = Fin (exp (- 1) / 2)"
  by (simp add: ref_env_def ref_poisson_def poisson_formula_def to_fl_exp_neg_1_half)

lemma spec_prob_example_1:
  "spec_prob ref_env \<lparr>endog = [0, 0, 2], exog = [[0], [0], [0]], exog_names = []\<rparr> [0, 0]
     (Fin (1/2)) (Suc 0) = Fin (exp (- 1))"
  by (simp add: spec_prob_def spec_mu_def fsum_def ref_mu_zero_row ref_poisson_0_1 ref_binom_0_0
      ref_mul_Fin ref_add_Fin to_fl_exp_neg_1)

lemma spec_prob_example_2:
  "spec_prob ref_env \<lparr>endog = [0, 0, 2], exog = [[0], [0], [0]], exog_names = []\<rparr> [0, 0]
     (Fin (1/2)) (Suc (Suc 0)) = Fin (exp (- 1) / 2)"
  by (simp add: spec_prob_def spec_mu_def fsum_def ref_mu_zero_row ref_poisson_2_1 ref_binom_0_0
      ref_mul_Fin ref_add_Fin to_fl_exp_neg_1_half)

lemma spec_nll_example_1:
  "spec_nll ref_env \<lparr>endog = [0, 0, 2], exog = [[0], [0], [0]], exog_names = []\<rparr> [0, 0]
     (Fin (1/2)) (Suc 0) = Fin 1"
proof -
  have "to_fl (- 1) = Fin (- 1)" by (rule to_fl_mid) simp_all
  then show ?thesis
    by (simp add: spec_nll_def spec_prob_example_1 log_value_def ref_log)
qed

lemma spec_nll_example_2:
  "spec_nll ref_env \<lparr>endog = [0, 0, 2], exog = [[0], [0], [0]], exog_names = []\<rparr> [0, 0]
     (Fin (1/2)) (Suc (Suc 0)) = Fin (1 + ln 2)"
proof -
  have "ln (exp (- 1) / 2) = - 1 - ln (2::real)" by (simp add: ln_div)
  moreover have "to_fl (- 1 - ln 2) = Fin (- 1 - ln 2)"
    by (rule to_fl_mid) (use ln_2_bounds in linarith)+
  ultimately show ?thesis
    by (simp add: spec_nll_def spec_prob_example_2 log_value_def ref_log)
qed

lemma example_shapes_ok:
  "shapes_ok \<lparr>endog = [0, 0, 2], exog = [[0], [0], [0]], exog_names = []\<rparr> [0, 0]"
  by (simp add: shapes_ok_def)

lemma example_no_raise:
  assumes "1 \<le> t" "t < length (endog \<lparr>endog = [0, 0, 2], exog = [[0], [0], [0]], exog_names = []\<rparr>)"
  shows "\<not> log_raises (spec_prob ref_env \<lparr>endog = [0, 0, 2], exog = [[0], [0], [0]], exog_names = []\<rparr>
                          [0, 0] (Fin (1/2)) t)"
proof -
  have "t = Suc 0 \<or> t = Suc (Suc 0)" using assms by auto
  then show ?thesis
    by (auto simp add: spec_prob_example_1 spec_prob_example_2 log_raises_def)
qed

lemma example_returns:
  "nloglikeobs ref_env \<lparr>endog = [0, 0, 2], exog = [[0], [0], [0]], exog_names = []\<rparr> [0, 0] =
     Inr [Fin (1 + ln 2), Fin 1]"
proof -
  have r: "rho_of ref_env (last [0, 0]) = Inr (Fin (1/2))" by (simp add: ref_rho_0)
  show ?thesis
    using nloglikeobs_returns[OF example_shapes_ok r example_no_raise]
    by (simp add: upt_1_3 spec_nll_example_1 spec_nll_example_2)
qed

text \<open>Underflow of the Poisson mass: the series 0, 200 at \<open>mu = 1\<close>.\<close>

lemma ref_mu_one_row_0: "np_exp ref_env (np_dot ref_env [1] [0]) = Fin 1"
  by (simp add: ref_env_def ref_dot_def to_fl_0 to_fl_1)

lemma ref_poisson_200_1: "poisson_pmf ref_env 200 (Fin 1) = Fin 0"
proof -
  have "exp (- 1) / fact 200 \<le> 1 / (fact 200 :: real)"
    by (intro divide_right_mono) simp_all
  also have "\<dots> \<le> 1 / 2 ^ 1075"
    using fact_200 by (intro divide_left_mono) simp_all
  finally have "\<bar>exp (- 1) / fact 200 :: real\<bar> \<le> dbl_tiny"
    by (simp add: dbl_tiny_def)
  then have "to_fl (exp (- 1) / fact 200) = Fin 0" by (rule to_fl_small)
  then show ?thesis
    by (simp add: ref_env_def ref_poisson_def poisson_formula_def)
qed

lemma spec_prob_underflow:
  "spec_prob ref_env \<lparr>endog = [0, 200], exog = [[1], [1]], exog_names = []\<rparr> [0, 0]
     (Fin (1/2)) (Suc 0) = Fin 0"
  by (simp add: spec_prob_def spec_mu_def fsum_def ref_mu_one_row_0 ref_poisson_200_1 ref_binom_0_0
      ref_mul_Fin ref_add_Fin to_fl_0)

lemma dbl_max_300: "300 \<le> dbl_max"
  by (simp add: dbl_max_def)

text \<open>The mean driven towards zero: the series 0, 5 at \<open>beta = -300\<close>.\<close>

lemma ref_mu_small: "np_exp ref_env (np_dot ref_env [1] [- 300]) = Fin (exp (- 300))"
proof -
  have "to_fl (- 300) = Fin (- 300)"
    using dbl_consts(3) dbl_max_300 by (intro to_fl_id) simp_all
  moreover have "to_fl (exp (- 300)) = Fin (exp (- 300))"
  proof (rule to_fl_id)
    show "dbl_tiny < \<bar>exp (- 300 :: real)\<bar>" using exp_neg_300(1) by simp
    have "exp (- 300 :: real) \<le> dbl_max" using exp_neg_300(2) dbl_consts(1) by linarith
    then show "\<bar>exp (- 300 :: real)\<bar> \<le> dbl_max" by simp
  qed
  ultimately show ?thesis by (simp add: ref_env_def ref_dot_def)
qed

lemma ref_poisson_5_small: "poisson_pmf ref_env 5 (Fin (exp (- 300))) = Fin 0"
proof -
  let ?m = "exp (- 300 :: real)"
  have m5: "?m ^ 5 = exp (- real 1500)"
    using exp_of_nat_mult[of 5 "- 300 :: real"] by simp
  have "exp (- ?m) * ?m ^ 5 / fact 5 \<le> 1 * ?m ^ 5 / 1"
    by (intro frac_le mult_mono) (simp_all add: fact_numeral)
  also have "\<dots> \<le> dbl_tiny" using exp_neg_small[of 1500] by (simp add: m5)
  finally have "\<bar>exp (- ?m) * ?m ^ 5 / fact 5\<bar> \<le> dbl_tiny" by simp
  then have "to_fl (exp (- ?m) * ?m ^ 5 / fact 5) = Fin 0" by (rule to_fl_small)
  then show ?thesis
    by (simp add: ref_env_def ref_poisson_def poisson_formula_def)
qed

lemma spec_prob_mu_small:
  "spec_prob ref_env \<lparr>endog = [0, 5], exog = [[1], [1]], exog_names = []\<rparr> [- 300, 0]
     (Fin (1/2)) (Suc 0) = Fin 0"
  by (simp add: spec_prob_def spec_mu_def fsum_def ref_mu_small ref_poisson_5_small ref_binom_0_0
      ref_mul_Fin ref_add_Fin to_fl_0)

subsection \<open>Line 35\<close>


















subsection \<open>The returned terms\<close>

lemma underflow_bound:
  "bound \<lparr>endog = [0, 200], exog = [[1], [1]], exog_names = []\<rparr> [0, 0]"
  by (simp add: bound_def shapes_ok_def)

lemma underflow_raises:
  "nloglikeobs ref_env \<lparr>endog = [0, 200], exog = [[1], [1]], exog_names = []\<rparr> [0, 0] =
     Inl ValueError"
proof (rule nloglikeobs_raises[where t = "Suc 0" and rho = "Fin (1/2)"])
  show "shapes_ok \<lparr>endog = [0, 200], exog = [[1], [1]], exog_names = []\<rparr> [0, 0]"
    by (simp add: shapes_ok_def)
  show "rho_of ref_env (last [0, 0]) = Inr (Fin (1/2))" by (simp add: ref_rho_0)
  show "log_raises (spec_prob ref_env \<lparr>endog = [0, 200], exog = [[1], [1]], exog_names = []\<rparr>
          [0, 0] (Fin (1/2)) (Suc 0))"
    by (simp add: spec_prob_underflow log_raises_def)
qed simp_all

lemma overflow_raises:
  "nloglikeobs ref_env \<lparr>endog = [0, 0, 2], exog = [[0], [0], [0]], exog_names = []\<rparr> [0, - 1000] =
     Inl OverflowError"
  by (rule nloglikeobs_rho_raises) (simp_all add: ref_rho_overflow)

text \<open>
  C1 as stated fails: on data of the specification's model the function does not always
  return. For the series \<open>0, 200\<close> with \<open>mu = 1\<close> the Poisson mass of \<open>200\<close> underflows to
  zero and \<open>math.log\<close> raises ValueError; with \<open>gamma = -1000\<close> the exponential of line 35
  overflows and OverflowError is raised.
\<close>

theorem nloglikeobs_raises_counterexample:
  "bound \<lparr>endog = [0, 200], exog = [[1], [1]], exog_names = []\<rparr> [0, 0] \<and>
   nloglikeobs ref_env \<lparr>endog = [0, 200], exog = [[1], [1]], exog_names = []\<rparr> [0, 0] =
     Inl ValueError \<and>
   bound \<lparr>endog = [0, 0, 2], exog = [[0], [0], [0]], exog_names = []\<rparr> [0, - 1000] \<and>
   nloglikeobs ref_env \<lparr>endog = [0, 0, 2], exog = [[0], [0], [0]], exog_names = []\<rparr> [0, - 1000] =
     Inl OverflowError"
  by (simp add: underflow_bound underflow_raises overflow_raises) (simp add: bound_def shapes_ok_def)

text \<open>
  C1, amended. For a series of length \<open>T\<close>, a regressor matrix with one row per
  observation and \<open>K\<close> columns, and a parameter vector of \<open>K + 1\<close> entries: whenever
  line 35 returns \<open>rho\<close> and \<open>math.log\<close> rejects no summed probability (none is zero,
  negative or minus infinity), \<open>nloglikeobs\<close> returns a sequence of exactly \<open>T - 1\<close>
  values, one for each \<open>t\<close> in \<open>1 .. T - 1\<close>, the value for \<open>t\<close> being
  \<open>- log (\<Sum>_{j=0}^{min(y_t, y_{t-1})} Poisson_pmf(y_t - j; mu_t) * Binomial_pmf(j; y_{t-1}, rho))\<close>
  in the arithmetic of the code; index \<open>0\<close> contributes no term.
\<close>

theorem nloglikeobs_terms:
  assumes "shapes_ok self params"
      and "rho_of env (last params) = Inr rho"
      and "\<forall>t. 1 \<le> t \<and> t < length (endog self) \<longrightarrow>
             \<not> log_raises (spec_prob env self params rho t)"
  shows "\<exists>ll. nloglikeobs env self params = Inr ll \<and>
           length ll = length (endog self) - 1 \<and>
           mset ll = mset (map (spec_nll env self params rho) [1 ..< length (endog self)])"
proof -
  have "nloglikeobs env self params =
          Inr (map (spec_nll env self params rho) (rev [1 ..< length (endog self)]))"
    using assms by (intro nloglikeobs_returns) simp_all
  then show ?thesis by (simp flip: rev_map)
qed

theorem nloglikeobs_terms_witness:
  "shapes_ok \<lparr>endog = [0, 0, 2], exog = [[0], [0], [0]], exog_names = []\<rparr> [0, 0] \<and>
   rho_of ref_env (last [0, 0]) = Inr (Fin (1 / 2)) \<and>
   (\<exists>ll. nloglikeobs ref_env \<lparr>endog = [0, 0, 2], exog = [[0], [0], [0]], exog_names = []\<rparr> [0, 0] = Inr ll \<and>
      length ll = 2)"
proof -
  have r: "rho_of ref_env (last [0, 0]) = Inr (Fin (1 / 2))" by (simp add: ref_rho_0)
  have n: "\<forall>t. 1 \<le> t \<and> t < length (endog \<lparr>endog = [0, 0, 2], exog = [[0], [0], [0]], exog_names = []\<rparr>) \<longrightarrow>
             \<not> log_raises (spec_prob ref_env \<lparr>endog = [0, 0, 2], exog = [[0], [0], [0]], exog_names = []\<rparr>
                  [0, 0] (Fin (1 / 2)) t)"
    using example_no_raise by blast
  show ?thesis
    using example_shapes_ok r nloglikeobs_terms[OF example_shapes_ok r n] by auto
qed

text \<open>
  C6 as stated fails: for the series \<open>0, 0, 2\<close> the element at position \<open>0\<close> of the
  returned sequence is \<open>1 + ln 2\<close>, the term of \<open>t = 2\<close>, and not the term of \<open>t = 1\<close>,
  which is \<open>1\<close>.
\<close>

theorem nloglikeobs_forward_order_counterexample:
  "nloglikeobs ref_env \<lparr>endog = [0, 0, 2], exog = [[0], [0], [0]], exog_names = []\<rparr> [0, 0] =
     Inr [Fin (1 + ln 2), Fin 1] \<and>
   rho_of ref_env (last [0, 0]) = Inr (Fin (1 / 2)) \<and>
   spec_nll ref_env \<lparr>endog = [0, 0, 2], exog = [[0], [0], [0]], exog_names = []\<rparr> [0, 0] (Fin (1 / 2)) 1 =
     Fin 1 \<and>
   [Fin (1 + ln 2), Fin 1] ! 0 \<noteq>
     spec_nll ref_env \<lparr>endog = [0, 0, 2], exog = [[0], [0], [0]], exog_names = []\<rparr> [0, 0] (Fin (1 / 2)) (0 + 1)"
  by (simp add: example_returns ref_rho_0 spec_nll_example_1)

text \<open>
  C6, amended. Whenever \<open>nloglikeobs\<close> returns a sequence for a series of length \<open>T\<close>, the
  sequence has \<open>T - 1\<close> elements in reverse time order: the element at position \<open>i\<close>, for
  \<open>i = 0 .. T - 2\<close>, is the term of time index \<open>t = T - 1 - i\<close>.
\<close>

theorem nloglikeobs_reverse_order:
  assumes "shapes_ok self params"
      and "nloglikeobs env self params = Inr ll"
      and "i < length (endog self) - 1"
  shows "length ll = length (endog self) - 1 \<and>
         (\<exists>rho. rho_of env (last params) = Inr rho \<and>
            ll ! i = spec_nll env self params rho (length (endog self) - 1 - i))"
proof -
  obtain rho where rho: "rho_of env (last params) = Inr rho"
    and ll: "ll = map (spec_nll env self params rho) (rev [1 ..< length (endog self)])"
    using assms(1,2) by (rule nloglikeobs_Inr_cases)
  have "rev [1 ..< length (endog self)] ! i = length (endog self) - 1 - i"
    using assms(3) by (simp add: rev_nth)
  then show ?thesis
    using assms(3) rho by (simp add: ll)
qed

theorem nloglikeobs_reverse_order_witness:
  "shapes_ok \<lparr>endog = [0, 0, 2], exog = [[0], [0], [0]], exog_names = []\<rparr> [0, 0] \<and>
   nloglikeobs ref_env \<lparr>endog = [0, 0, 2], exog = [[0], [0], [0]], exog_names = []\<rparr> [0, 0] =
     Inr [Fin (1 + ln 2), Fin 1] \<and>
   (0::nat) < length (endog \<lparr>endog = [0, 0, 2], exog = [[0], [0], [0]], exog_names = []\<rparr>) - 1 \<and>
   length [Fin (1 + ln 2), Fin 1] =
     length (endog \<lparr>endog = [0, 0, 2], exog = [[0], [0], [0]], exog_names = []\<rparr>) - 1 \<and>
   [Fin (1 + ln 2), Fin 1] ! 0 =
     spec_nll ref_env \<lparr>endog = [0, 0, 2], exog = [[0], [0], [0]], exog_names = []\<rparr> [0, 0] (Fin (1 / 2)) 2"
proof -
  have i: "(0::nat) < length (endog \<lparr>endog = [0, 0, 2], exog = [[0], [0], [0]], exog_names = []\<rparr>) - 1"
    by simp
  show ?thesis
    using example_shapes_ok example_returns i
      nloglikeobs_reverse_order[OF example_shapes_ok example_returns i]
    by (simp add: ref_rho_0 numeral_2_eq_2)
qed

text \<open>
  C2 as stated fails: for the series \<open>0, 5\<close> with the regression coefficient \<open>-300\<close> the
  mean is \<open>exp (-300)\<close>, the Poisson mass of \<open>5\<close> underflows to zero, the summed probability
  is zero, and \<open>nloglikeobs\<close> raises ValueError instead of returning a penalty.
\<close>

theorem nloglikeobs_no_clamp_counterexample:
  "bound \<lparr>endog = [0, 5], exog = [[1], [1]], exog_names = []\<rparr> [- 300, 0] \<and>
   spec_mu ref_env \<lparr>endog = [0, 5], exog = [[1], [1]], exog_names = []\<rparr> [- 300, 0] 1 =
     Fin (exp (- 300)) \<and>
   spec_prob ref_env \<lparr>endog = [0, 5], exog = [[1], [1]], exog_names = []\<rparr> [- 300, 0] (Fin (1 / 2)) 1 =
     Fin 0 \<and>
   nloglikeobs ref_env \<lparr>endog = [0, 5], exog = [[1], [1]], exog_names = []\<rparr> [- 300, 0] =
     Inl ValueError"
proof -
  have s: "shapes_ok \<lparr>endog = [0, 5], exog = [[1], [1]], exog_names = []\<rparr> [- 300, 0]"
    by (simp add: shapes_ok_def)
  have r: "rho_of ref_env (last [- 300, 0]) = Inr (Fin (1 / 2))" by (simp add: ref_rho_0)
  have "nloglikeobs ref_env \<lparr>endog = [0, 5], exog = [[1], [1]], exog_names = []\<rparr> [- 300, 0] =
          Inl ValueError"
    by (rule nloglikeobs_raises[OF s r, where t = "Suc 0"])
       (simp_all add: spec_prob_mu_small log_raises_def)
  then show ?thesis
    by (simp add: spec_prob_mu_small spec_mu_def ref_mu_small bound_def s)
qed

text \<open>
  C2, amended. There is no clamp: whenever the shapes of the data and the parameter
  vector fit, line 35 returns, and the summed probability of some \<open>t\<close> in \<open>1 .. T - 1\<close> is
  zero (after underflow), negative or minus infinity, \<open>nloglikeobs\<close> raises ValueError
  (the domain error of \<open>math.log\<close>) and returns no value.
\<close>

theorem nloglikeobs_raises_on_nonpositive:
  assumes "shapes_ok self params"
      and "rho_of env (last params) = Inr rho"
      and "1 \<le> t" "t < length (endog self)"
      and "log_raises (spec_prob env self params rho t)"
  shows "nloglikeobs env self params = Inl ValueError"
  using assms by (rule nloglikeobs_raises)

theorem nloglikeobs_raises_on_nonpositive_witness:
  "shapes_ok \<lparr>endog = [0, 5], exog = [[1], [1]], exog_names = []\<rparr> [- 300, 0] \<and>
   rho_of ref_env (last [- 300, 0]) = Inr (Fin (1 / 2)) \<and>
   (1::nat) \<le> 1 \<and> (1::nat) < length (endog \<lparr>endog = [0, 5], exog = [[1], [1]], exog_names = []\<rparr>) \<and>
   log_raises (spec_prob ref_env \<lparr>endog = [0, 5], exog = [[1], [1]], exog_names = []\<rparr>
                 [- 300, 0] (Fin (1 / 2)) 1) \<and>
   nloglikeobs ref_env \<lparr>endog = [0, 5], exog = [[1], [1]], exog_names = []\<rparr> [- 300, 0] = Inl ValueError"
proof -
  have s: "shapes_ok \<lparr>endog = [0, 5], exog = [[1], [1]], exog_names = []\<rparr> [- 300, 0]"
    by (simp add: shapes_ok_def)
  have r: "rho_of ref_env (last [- 300, 0]) = Inr (Fin (1 / 2))" by (simp add: ref_rho_0)
  have t: "(1::nat) \<le> 1" "(1::nat) < length (endog \<lparr>endog = [0, 5], exog = [[1], [1]], exog_names = []\<rparr>)"
    by simp_all
  have p: "log_raises (spec_prob ref_env \<lparr>endog = [0, 5], exog = [[1], [1]], exog_names = []\<rparr>
                 [- 300, 0] (Fin (1 / 2)) 1)"
    by (simp add: spec_prob_mu_small log_raises_def)
  show ?thesis
    using s r t p nloglikeobs_raises_on_nonpositive[OF s r t p] by simp
qed

lemma spec_prob_after_zero:
  assumes "endog self ! (t - 1) = 0" "0 \<le> endog self ! t"
      and "binom_pmf env 0 0 rho = Fin 1"
      and "f_mul env (poisson_pmf env (endog self ! t) (spec_mu env self params t)) (Fin 1) =
             poisson_pmf env (endog self ! t) (spec_mu env self params t)"
      and "f_add env (Fin 0) (poisson_pmf env (endog self ! t) (spec_mu env self params t)) =
             poisson_pmf env (endog self ! t) (spec_mu env self params t)"
  shows "spec_prob env self params rho t = poisson_pmf env (endog self ! t) (spec_mu env self params t)"
proof -
  have "min (endog self ! t) 0 = 0" using assms(2) by simp
  then have "[0 .. min (endog self ! t) (endog self ! (t - 1))] = [0]"
    using assms(1) by (simp add: upto_rec1)
  then show ?thesis
    unfolding spec_prob_def fsum_def using assms(1,3,4,5) by simp
qed

text \<open>
  C5 as stated fails: for the series \<open>0, 200\<close> with \<open>mu = 1\<close> and \<open>t = 1\<close>, where
  \<open>y_{t-1} = 0\<close>, the probability is the Poisson mass of \<open>200\<close>, which is zero after
  underflow, and no negative log-likelihood is produced: \<open>nloglikeobs\<close> raises ValueError.
\<close>

theorem nloglikeobs_after_zero_counterexample:
  "endog \<lparr>endog = [0, 200], exog = [[1], [1]], exog_names = []\<rparr> ! (1 - 1) = 0 \<and>
   spec_prob ref_env \<lparr>endog = [0, 200], exog = [[1], [1]], exog_names = []\<rparr> [0, 0] (Fin (1 / 2)) 1 =
     poisson_pmf ref_env 200 (Fin 1) \<and>
   poisson_pmf ref_env 200 (Fin 1) = Fin 0 \<and>
   nloglikeobs ref_env \<lparr>endog = [0, 200], exog = [[1], [1]], exog_names = []\<rparr> [0, 0] = Inl ValueError"
  by (simp add: spec_prob_underflow ref_poisson_200_1 underflow_raises)

text \<open>
  C5, amended. For every parameter vector at which line 35 returns \<open>rho\<close> and every \<open>t\<close>
  in \<open>1 .. T - 1\<close> with \<open>y_{t-1} = 0\<close> and \<open>y_t \<ge> 0\<close>: given that
  \<open>Binomial_pmf(0; 0, rho) = 1\<close> and that multiplying by \<open>1.0\<close> and adding to \<open>0\<close> are
  exact, the probability the inner loop computes is exactly \<open>Poisson_pmf(y_t; mu_t)\<close>,
  and \<open>nloglikeobs\<close> either raises ValueError (some summed probability is rejected by
  \<open>math.log\<close>) or returns a sequence whose term for \<open>t\<close> (at position \<open>T - 1 - t\<close>) is
  \<open>- log (Poisson_pmf(y_t; mu_t))\<close>.
\<close>

theorem nloglikeobs_after_zero:
  assumes "shapes_ok self params"
      and "1 \<le> t" "t < length (endog self)"
      and "endog self ! (t - 1) = 0" "0 \<le> endog self ! t"
      and "rho_of env (last params) = Inr rho"
      and "binom_pmf env 0 0 rho = Fin 1"
      and "f_mul env (poisson_pmf env (endog self ! t) (spec_mu env self params t)) (Fin 1) =
             poisson_pmf env (endog self ! t) (spec_mu env self params t)"
      and "f_add env (Fin 0) (poisson_pmf env (endog self ! t) (spec_mu env self params t)) =
             poisson_pmf env (endog self ! t) (spec_mu env self params t)"
  shows "prob_y_t env (endog self)
           (map (np_exp env) (map (\<lambda>row. np_dot env row (butlast params)) (exog self))) rho t =
           Inr (poisson_pmf env (endog self ! t) (spec_mu env self params t)) \<and>
         (nloglikeobs env self params = Inl ValueError \<or>
          (\<exists>ll. nloglikeobs env self params = Inr ll \<and>
             ll ! (length (endog self) - 1 - t) =
               fneg (log_value env (poisson_pmf env (endog self ! t) (spec_mu env self params t)))))"
proof -
  let ?p = "poisson_pmf env (endog self ! t) (spec_mu env self params t)"
  have sp: "spec_prob env self params rho t = ?p"
    using assms(4,5,7,8,9) by (rule spec_prob_after_zero)
  have len: "t < length (exog self)" using assms(1,3) by (simp add: shapes_ok_def)
  have first: "prob_y_t env (endog self)
           (map (np_exp env) (map (\<lambda>row. np_dot env row (butlast params)) (exog self))) rho t = Inr ?p"
    using prob_y_t_spec[OF len, of env params rho] by (simp only: sp)
  have second: "nloglikeobs env self params = Inl ValueError \<or>
          (\<exists>ll. nloglikeobs env self params = Inr ll \<and>
             ll ! (length (endog self) - 1 - t) = fneg (log_value env ?p))"
  proof (cases "\<exists>u. 1 \<le> u \<and> u < length (endog self) \<and> log_raises (spec_prob env self params rho u)")
    case True
    then obtain u where "1 \<le> u" "u < length (endog self)"
      "log_raises (spec_prob env self params rho u)" by blast
    then have "nloglikeobs env self params = Inl ValueError"
      using assms(1,6) by (intro nloglikeobs_raises)
    then show ?thesis by simp
  next
    case False
    then have ret: "nloglikeobs env self params =
        Inr (map (spec_nll env self params rho) (rev [1 ..< length (endog self)]))"
      using assms(1,6) by (intro nloglikeobs_returns) auto
    have i: "length (endog self) - 1 - t < length (endog self) - 1"
      using assms(2,3) by simp
    have "rev [1 ..< length (endog self)] ! (length (endog self) - 1 - t) = t"
      using assms(2,3) by (simp add: rev_nth)
    then have "map (spec_nll env self params rho) (rev [1 ..< length (endog self)]) !
                 (length (endog self) - 1 - t) = spec_nll env self params rho t"
      using i by simp
    then show ?thesis
      by (simp only: ret spec_nll_def sp) simp
  qed
  show ?thesis using first second by (rule conjI)
qed

theorem nloglikeobs_after_zero_witness:
  "shapes_ok \<lparr>endog = [0, 0, 2], exog = [[0], [0], [0]], exog_names = []\<rparr> [0, 0] \<and>
   (1::nat) \<le> 2 \<and> 2 < length (endog \<lparr>endog = [0, 0, 2], exog = [[0], [0], [0]], exog_names = []\<rparr>) \<and>
   endog \<lparr>endog = [0, 0, 2], exog = [[0], [0], [0]], exog_names = []\<rparr> ! (2 - 1) = 0 \<and>
   0 \<le> endog \<lparr>endog = [0, 0, 2], exog = [[0], [0], [0]], exog_names = []\<rparr> ! 2 \<and>
   rho_of ref_env (last [0, 0]) = Inr (Fin (1 / 2)) \<and>
   binom_pmf ref_env 0 0 (Fin (1 / 2)) = Fin 1 \<and>
   prob_y_t ref_env (endog \<lparr>endog = [0, 0, 2], exog = [[0], [0], [0]], exog_names = []\<rparr>)
     (map (np_exp ref_env) (map (\<lambda>row. np_dot ref_env row (butlast [0, 0]))
        (exog \<lparr>endog = [0, 0, 2], exog = [[0], [0], [0]], exog_names = []\<rparr>))) (Fin (1 / 2)) 2 =
     Inr (Fin (exp (- 1) / 2))"
proof -
  let ?M = "\<lparr>endog = [0, 0, 2], exog = [[0], [0], [0]], exog_names = []\<rparr>"
  have mu: "spec_mu ref_env ?M [0, 0] 2 = Fin 1"
    by (simp add: spec_mu_def ref_mu_zero_row)
  have p: "poisson_pmf ref_env (endog ?M ! 2) (spec_mu ref_env ?M [0, 0] 2) = Fin (exp (- 1) / 2)"
    by (simp add: mu ref_poisson_2_1)
  have t: "(1::nat) \<le> 2" "2 < length (endog ?M)" "endog ?M ! (2 - 1) = 0" "0 \<le> endog ?M ! 2"
    by simp_all
  have r: "rho_of ref_env (last [0, 0]) = Inr (Fin (1 / 2))" by (simp add: ref_rho_0)
  have m: "f_mul ref_env (poisson_pmf ref_env (endog ?M ! 2) (spec_mu ref_env ?M [0, 0] 2)) (Fin 1) =
           poisson_pmf ref_env (endog ?M ! 2) (spec_mu ref_env ?M [0, 0] 2)"
    by (simp only: p) (simp add: ref_mul_Fin to_fl_exp_neg_1_half)
  have a: "f_add ref_env (Fin 0) (poisson_pmf ref_env (endog ?M ! 2) (spec_mu ref_env ?M [0, 0] 2)) =
           poisson_pmf ref_env (endog ?M ! 2) (spec_mu ref_env ?M [0, 0] 2)"
    by (simp only: p) (simp add: ref_add_Fin to_fl_exp_neg_1_half)
  have "prob_y_t ref_env (endog ?M)
     (map (np_exp ref_env) (map (\<lambda>row. np_dot ref_env row (butlast [0, 0])) (exog ?M))) (Fin (1 / 2)) 2 =
     Inr (poisson_pmf ref_env (endog ?M ! 2) (spec_mu ref_env ?M [0, 0] 2))"
    using nloglikeobs_after_zero[OF example_shapes_ok t r ref_binom_0_0 m a] by (rule conjunct1)
  then show ?thesis
    using example_shapes_ok t r ref_binom_0_0 by (simp only: p)
qed

text \<open>
  A mean that overflows: for the series \<open>0, 5\<close> with the regression coefficient \<open>1000\<close> the
  mean is infinite, the Poisson mass is NaN, \<open>math.log\<close> passes NaN through, and the
  returned sequence holds NaN.
\<close>

theorem nloglikeobs_returns_NaN:
  "nloglikeobs ref_env \<lparr>endog = [0, 5], exog = [[1], [1]], exog_names = []\<rparr> [1000, 0] = Inr [NaN]"
proof -
  let ?M = "\<lparr>endog = [0, 5], exog = [[1], [1]], exog_names = []\<rparr>"
  have s: "shapes_ok ?M [1000, 0]" by (simp add: shapes_ok_def)
  have r: "rho_of ref_env (last [1000, 0]) = Inr (Fin (1 / 2))" by (simp add: ref_rho_0)
  have "to_fl 1000 = Fin 1000"
    using dbl_consts(3) dbl_max_300 dbl_max_def by (intro to_fl_id) simp_all
  then have mu: "spec_mu ref_env ?M [1000, 0] (Suc 0) = PInf"
    by (simp add: spec_mu_def ref_env_def ref_dot_def to_fl_over[OF exp_1000_over])
  have p: "spec_prob ref_env ?M [1000, 0] (Fin (1 / 2)) (Suc 0) = NaN"
    by (simp add: spec_prob_def fsum_def mu) (simp add: ref_env_def ref_poisson_def)
  have n: "\<not> log_raises (spec_prob ref_env ?M [1000, 0] (Fin (1 / 2)) t)"
    if "1 \<le> t" "t < length (endog ?M)" for t
  proof -
    have "t = Suc 0" using that by simp
    then show ?thesis by (simp add: p log_raises_def)
  qed
  show ?thesis
    using nloglikeobs_returns[OF s r n]
    by (simp add: upt_rec spec_nll_def p log_value_def)
qed

subsection \<open>\<open>fit\<close>\<close>

lemma fit_appends_gamma:
  "exog_names (fst (fit super_fit self start_params maxiter maxfun)) = exog_names self @ [''gamma'']"
  by (simp add: fit_def Let_def split: sum.splits)

text \<open>
  C3 fails on the code: every call of \<open>fit\<close> appends the label (line 60). With one
  regressor column named \<open>x1\<close>, two calls of \<open>fit\<close> leave three names, \<open>K + 2\<close>, while the
  start vector built by the same call has \<open>K + 1 = 2\<close> entries.
\<close>

theorem fit_twice_duplicates_gamma:
  "exog_names (fst (fit echo_start
      (fst (fit echo_start \<lparr>endog = [0, 0, 2], exog = [[1], [1], [1]], exog_names = [''x1'']\<rparr>
              PyNone 1000 5000))
      PyNone 1000 5000)) = [''x1'', ''gamma'', ''gamma''] \<and>
   snd (fit echo_start
      (fst (fit echo_start \<lparr>endog = [0, 0, 2], exog = [[1], [1], [1]], exog_names = [''x1'']\<rparr>
              PyNone 1000 5000))
      PyNone 1000 5000) = Inr [1, 1]"
  by (simp add: fit_appends_gamma)
    (simp add: fit_def Let_def truth_def eq_None_def shape1_def echo_start_def)

text \<open>
  C8. With \<open>start_params\<close> unset, the vector handed to the optimiser is \<open>K\<close> ones
  followed by \<open>1.0\<close>, where \<open>K\<close> is the number of regressor columns: \<open>K + 1\<close> entries,
  all equal to \<open>1.0\<close>.
\<close>

theorem fit_default_start:
  "snd (fit super_fit self PyNone maxiter maxfun) =
     super_fit (self\<lparr>exog_names := exog_names self @ [''gamma'']\<rparr>)
       (replicate (shape1 (exog self)) 1 @ [1]) maxiter maxfun \<and>
   length (replicate (shape1 (exog self)) (1::real) @ [1]) = shape1 (exog self) + 1 \<and>
   take (shape1 (exog self)) (replicate (shape1 (exog self)) (1::real) @ [1]) =
     replicate (shape1 (exog self)) 1 \<and>
   last (replicate (shape1 (exog self)) (1::real) @ [1]) = 1"
  by (simp add: fit_def Let_def truth_def eq_None_def)

text \<open>
  C10 as stated fails: a start vector of two entries supplied as a Python list compares
  unequal to \<open>None\<close> as a whole, no error is raised, and the optimiser is called with it;
  the default start is not the only usable path.
\<close>

theorem fit_list_start_counterexample:
  "fit echo_start \<lparr>endog = [0, 0, 2], exog = [[1], [1], [1]], exog_names = [''x1'']\<rparr>
     (PyList [1, 1]) 1000 5000 =
     (\<lparr>endog = [0, 0, 2], exog = [[1], [1], [1]], exog_names = [''x1'', ''gamma'']\<rparr>, Inr [1, 1])"
  by (simp add: fit_def Let_def truth_def eq_None_def values_of_def echo_start_def)

text \<open>
  C10, amended. When the caller supplies \<open>start_params\<close> as a NumPy array of two or more
  entries, the guard \<open>start_params == None\<close> is an elementwise comparison whose truth
  value is ambiguous: \<open>fit\<close> raises ValueError, after the label was appended and without
  calling the optimiser.
\<close>

theorem fit_array_start_raises:
  "2 \<le> length v \<Longrightarrow>
   fit super_fit self (NdArray v) maxiter maxfun =
     (self\<lparr>exog_names := exog_names self @ [''gamma'']\<rparr>, Inl ValueError)"
  by (cases v; cases "tl v") (auto simp add: fit_def truth_def eq_None_def)

theorem fit_array_start_raises_witness:
  "2 \<le> length [1, 1 :: real] \<and>
   fit echo_start \<lparr>endog = [0, 0, 2], exog = [[1], [1], [1]], exog_names = [''x1'']\<rparr>
     (NdArray [1, 1]) 1000 5000 =
     (\<lparr>endog = [0, 0, 2], exog = [[1], [1], [1]], exog_names = [''x1'', ''gamma'']\<rparr>, Inl ValueError)"
proof -
  have h: "2 \<le> length [1, 1 :: real]" by simp
  show ?thesis
    using h fit_array_start_raises[OF h, of echo_start
        "\<lparr>endog = [0, 0, 2], exog = [[1], [1], [1]], exog_names = [''x1'']\<rparr>" 1000 5000]
    by simp
qed

text \<open>
  A start vector supplied as a Python list compares unequal to \<open>None\<close> as a whole and is
  handed to the optimiser as it is.
\<close>

theorem fit_list_start_passes:
  "fit super_fit self (PyList v) maxiter maxfun =
     (self\<lparr>exog_names := exog_names self @ [''gamma'']\<rparr>,
      super_fit (self\<lparr>exog_names := exog_names self @ [''gamma'']\<rparr>) v maxiter maxfun)"
  by (simp add: fit_def Let_def truth_def eq_None_def values_of_def)

end
